theory Spec2Isabelle
  imports Main
begin

section \<open>The preferences dialog of the sound switcher indicator (prefs.py)\<close>

text \<open>
  The dialog is a widget tree with signal handlers. The model keeps, for every widget the
  handlers read or write, the part of its state they touch (a switch's active flag, an
  entry's text, a list box's rows and selection, the visible flag of the widgets that are
  shown and hidden), and passes the state explicitly. Layout properties (orientation,
  spacing, border width, grid positions, icons) and \<open>logging.debug\<close> calls have no
  effect on that state and are left out.
\<close>

subsection \<open>The external collaborators: ports, cards, the indicator and its config\<close>

text \<open>
  Ports and cards are objects of the indicator. The dialog reads \<open>name\<close>,
  \<open>display_name\<close>, \<open>ports\<close> and the result of the getter \<open>get_display_name()\<close>;
  the getter's result is a field here. A dict is an association list in iteration order.
\<close>

record port =
  port_name :: string
  port_display_name :: string
  port_get_display_name :: string

record card =
  card_name :: string
  card_display_name :: string
  card_get_display_name :: string
  card_ports :: "(string \<times> port) list"

text \<open>
  Every call the dialog makes on the indicator is appended to \<open>calls\<close>, so that the
  order of the effects can be read off the state.
\<close>

datatype call = ConfigSet string bool | OnRefresh

record indicator =
  config :: "string \<rightharpoonup> bool"
  cards :: "(nat \<times> card) list"
  calls :: "call list"

text \<open>
  Modelled from the spec: the item access of the indicator's config object, whose class
  is not part of prefs.py. \<open>config[key, default]\<close> gives the stored value, or the default
  when the key is unset; \<open>config[key] = value\<close> stores the value.
\<close>

definition config_getitem :: "(string \<rightharpoonup> bool) \<Rightarrow> string \<times> bool \<Rightarrow> bool" where
  "config_getitem cfg kd = (case cfg (fst kd) of None \<Rightarrow> snd kd | Some v \<Rightarrow> v)"

definition config_setitem :: "string \<Rightarrow> bool \<Rightarrow> indicator \<Rightarrow> indicator" where
  "config_setitem key v ind =
     ind\<lparr>config := (config ind)(key \<mapsto> v), calls := calls ind @ [ConfigSet key v]\<rparr>"

text \<open>
  \<open>indicator.on_refresh()\<close> belongs to the indicator; what it does there is outside
  prefs.py, and only the call is recorded.
\<close>

definition on_refresh :: "indicator \<Rightarrow> indicator" where
  "on_refresh ind = ind\<lparr>calls := calls ind @ [OnRefresh]\<rparr>"

subsection \<open>Widgets\<close>

text \<open>
  A new widget is not visible; \<open>show()\<close> and \<open>hide()\<close> set the flag, and
  \<open>show_all()\<close> sets it on the widget and its descendants. A new switch is off. A new
  list box has no rows and no selection; the selection is the index of the selected row.
\<close>

record widget =
  visible :: bool

record switch =
  active :: bool

record 'r list_box =
  rows :: "'r list"
  selected :: "nat option"

record combo_box_text =
  items :: "string list"
  active_item :: "nat option"

definition widget_show :: "widget \<Rightarrow> widget" where
  "widget_show w = w\<lparr>visible := True\<rparr>"

definition widget_hide :: "widget \<Rightarrow> widget" where
  "widget_hide w = w\<lparr>visible := False\<rparr>"

definition get_active :: "switch \<Rightarrow> bool" where
  "get_active w = active w"

definition get_selected_row :: "'r list_box \<Rightarrow> 'r option" where
  "get_selected_row lb =
     (case selected lb of
        None \<Rightarrow> None
      | Some i \<Rightarrow> if i < length (rows lb) then Some (rows lb ! i) else None)"

definition list_box_add :: "'r \<Rightarrow> 'r list_box \<Rightarrow> 'r list_box" where
  "list_box_add r lb = lb\<lparr>rows := rows lb @ [r]\<rparr>"

subsection \<open>BasePage\<close>

record base_page = widget +
  is_initialised :: bool
  title :: string

text \<open>
  \<open>BasePage.on_activate\<close>, for any subclass: \<open>initialise\<close> is the subclass's method,
  which works on the page and on the indicator the page refers to.
\<close>

definition on_activate ::
  "('a base_page_scheme \<times> 'i \<Rightarrow> 'a base_page_scheme \<times> 'i) \<Rightarrow>
   'a base_page_scheme \<times> 'i \<Rightarrow> 'a base_page_scheme \<times> 'i" where
  "on_activate initialise s =
     (if \<not> is_initialised (fst s)
      then (let s' = initialise s in ((fst s')\<lparr>is_initialised := True\<rparr>, snd s'))
      else s)"

definition get_label_widget :: "'a base_page_scheme \<Rightarrow> string" where
  "get_label_widget p = title p"

subsection \<open>GeneralPage\<close>

record general_page = base_page +
  switch_inputs :: switch
  switch_outputs :: switch

definition GeneralPage_init :: "(string \<Rightarrow> string) \<Rightarrow> general_page" where
  "GeneralPage_init tr =
     \<lparr>visible = False, is_initialised = False, title = tr ''_General'',
      switch_inputs = \<lparr>active = False\<rparr>, switch_outputs = \<lparr>active = False\<rparr>\<rparr>"

definition on_switch_inputs_set ::
  "switch \<Rightarrow> general_page \<times> indicator \<Rightarrow> general_page \<times> indicator" where
  "on_switch_inputs_set w s =
     (if \<not> is_initialised (fst s) then s
      else (fst s, on_refresh (config_setitem ''show_inputs'' (get_active w) (snd s))))"

definition on_switch_outputs_set ::
  "switch \<Rightarrow> general_page \<times> indicator \<Rightarrow> general_page \<times> indicator" where
  "on_switch_outputs_set w s =
     (if \<not> is_initialised (fst s) then s
      else (fst s, on_refresh (config_setitem ''show_outputs'' (get_active w) (snd s))))"

text \<open>
  \<open>set_active\<close> on a switch: when the value differs from the switch's state, the state
  changes and the toolkit emits \<open>state-set\<close>, which runs the connected handler with the
  switch as its widget; when the value is the state already, nothing happens. A click of
  the user on the switch is \<open>set_active\<close> of the opposite state.
\<close>

definition switch_inputs_set_active ::
  "bool \<Rightarrow> general_page \<times> indicator \<Rightarrow> general_page \<times> indicator" where
  "switch_inputs_set_active v s =
     (if active (switch_inputs (fst s)) = v then s
      else (let p = (fst s)\<lparr>switch_inputs := (switch_inputs (fst s))\<lparr>active := v\<rparr>\<rparr>
            in on_switch_inputs_set (switch_inputs p) (p, snd s)))"

definition switch_outputs_set_active ::
  "bool \<Rightarrow> general_page \<times> indicator \<Rightarrow> general_page \<times> indicator" where
  "switch_outputs_set_active v s =
     (if active (switch_outputs (fst s)) = v then s
      else (let p = (fst s)\<lparr>switch_outputs := (switch_outputs (fst s))\<lparr>active := v\<rparr>\<rparr>
            in on_switch_outputs_set (switch_outputs p) (p, snd s)))"

definition GeneralPage_show_all :: "general_page \<Rightarrow> general_page" where
  "GeneralPage_show_all p = p\<lparr>visible := True\<rparr>"

definition GeneralPage_initialise ::
  "general_page \<times> indicator \<Rightarrow> general_page \<times> indicator" where
  "GeneralPage_initialise s =
     (let s1 = switch_inputs_set_active
                 (config_getitem (config (snd s)) (''show_inputs'', True)) s;
          s2 = switch_outputs_set_active
                 (config_getitem (config (snd s1)) (''show_outputs'', True)) s1
      in (GeneralPage_show_all (fst s2), snd s2))"

definition toggle_inputs :: "general_page \<times> indicator \<Rightarrow> general_page \<times> indicator" where
  "toggle_inputs s = switch_inputs_set_active (\<not> active (switch_inputs (fst s))) s"

definition toggle_outputs :: "general_page \<times> indicator \<Rightarrow> general_page \<times> indicator" where
  "toggle_outputs s = switch_outputs_set_active (\<not> active (switch_outputs (fst s))) s"

subsection \<open>DevicesPage\<close>

text \<open>
  A row of the devices list holds its card (\<open>row.card = card\<close>) and the two labels of its
  grid; a row of the ports list holds its port and the two labels of its box. The dialog
  never writes to a card or a port, so a row holds the value of the object it refers to.
\<close>

record device_row =
  row_card :: card
  device_title_label :: string
  device_name_label :: string

record port_row =
  row_port :: port
  port_title_label :: string
  port_name_label :: string

record devices_page = base_page +
  listbox_devices :: "device_row list_box"
  lbl_dev_props_placeholder :: widget
  box_dev_props :: widget
  entry_dev_name :: string
  listbox_ports :: "port_row list_box"
  lbl_port_props_placeholder :: widget
  box_port_props :: widget
  switch_port_visible :: switch
  entry_port_name :: string
  switch_port_always_avail :: switch
  cbox_port_pref_profile :: combo_box_text

definition DevicesPage_init :: "(string \<Rightarrow> string) \<Rightarrow> devices_page" where
  "DevicesPage_init tr =
     \<lparr>visible = False, is_initialised = False, title = tr ''_Devices'',
      listbox_devices = \<lparr>rows = [], selected = None\<rparr>,
      lbl_dev_props_placeholder = \<lparr>visible = False\<rparr>,
      box_dev_props = \<lparr>visible = False\<rparr>,
      entry_dev_name = [],
      listbox_ports = \<lparr>rows = [], selected = None\<rparr>,
      lbl_port_props_placeholder = \<lparr>visible = False\<rparr>,
      box_port_props = \<lparr>visible = False\<rparr>,
      switch_port_visible = \<lparr>active = False\<rparr>,
      entry_port_name = [],
      switch_port_always_avail = \<lparr>active = False\<rparr>,
      cbox_port_pref_profile = \<lparr>items = [], active_item = None\<rparr>\<rparr>"

definition update_port_props_widgets :: "devices_page \<Rightarrow> devices_page" where
  "update_port_props_widgets p =
     (case get_selected_row (listbox_ports p) of
        None \<Rightarrow>
          p\<lparr>lbl_port_props_placeholder := widget_show (lbl_port_props_placeholder p),
            box_port_props := widget_hide (box_port_props p)\<rparr>
      | Some row \<Rightarrow>
          p\<lparr>entry_port_name := port_display_name (row_port row),
            box_port_props := widget_show (box_port_props p),
            lbl_port_props_placeholder := widget_hide (lbl_port_props_placeholder p)\<rparr>)"

definition on_port_row_selected :: "devices_page \<Rightarrow> devices_page" where
  "on_port_row_selected p = update_port_props_widgets p"

text \<open>
  \<open>listbox_ports.remove(row)\<close> for the row at index \<open>i\<close>: the row leaves the list;
  when it was the selected one, the list box has no selection any more and the toolkit
  emits \<open>row-selected\<close>, which runs the connected handler.
\<close>

definition listbox_ports_remove :: "nat \<Rightarrow> devices_page \<Rightarrow> devices_page" where
  "listbox_ports_remove i p =
     (let lb = listbox_ports p;
          rs = take i (rows lb) @ drop (Suc i) (rows lb)
      in case selected lb of
           None \<Rightarrow> p\<lparr>listbox_ports := lb\<lparr>rows := rs\<rparr>\<rparr>
         | Some j \<Rightarrow>
             if j = i
             then on_port_row_selected (p\<lparr>listbox_ports := lb\<lparr>rows := rs, selected := None\<rparr>\<rparr>)
             else p\<lparr>listbox_ports :=
                      lb\<lparr>rows := rs, selected := Some (if i < j then j - 1 else j)\<rparr>\<rparr>)"

text \<open>
  The loop over \<open>listbox_ports.get_children()\<close>: the rows are removed in order, so the
  row being removed is the first one left.
\<close>

fun remove_port_rows :: "port_row list \<Rightarrow> devices_page \<Rightarrow> devices_page" where
  "remove_port_rows [] p = p"
| "remove_port_rows (r # rs) p = remove_port_rows rs (listbox_ports_remove 0 p)"

text \<open>The loop over \<open>row.card.ports.items()\<close>.\<close>

fun add_port_rows :: "(string \<times> port) list \<Rightarrow> devices_page \<Rightarrow> devices_page" where
  "add_port_rows [] p = p"
| "add_port_rows (np # nps) p =
     add_port_rows nps
       (p\<lparr>listbox_ports :=
            list_box_add
              \<lparr>row_port = snd np,
               port_title_label = port_get_display_name (snd np),
               port_name_label = port_name (snd np)\<rparr>
              (listbox_ports p)\<rparr>)"

definition update_dev_props_widgets :: "devices_page \<Rightarrow> devices_page" where
  "update_dev_props_widgets p =
     (let row = get_selected_row (listbox_devices p);
          p1 = remove_port_rows (rows (listbox_ports p)) p
      in case row of
           None \<Rightarrow>
             p1\<lparr>lbl_dev_props_placeholder := widget_show (lbl_dev_props_placeholder p1),
                box_dev_props := widget_hide (box_dev_props p1)\<rparr>
         | Some r \<Rightarrow>
             (let p2 = p1\<lparr>entry_dev_name := card_display_name (row_card r)\<rparr>;
                  p3 = add_port_rows (card_ports (row_card r)) p2
              in p3\<lparr>box_dev_props := widget_show (box_dev_props p3),
                    lbl_dev_props_placeholder :=
                      widget_hide (lbl_dev_props_placeholder p3)\<rparr>))"

definition on_device_row_selected :: "devices_page \<Rightarrow> devices_page" where
  "on_device_row_selected p = update_dev_props_widgets p"

text \<open>The loop over \<open>indicator.cards.items()\<close>.\<close>

fun add_device_rows :: "(nat \<times> card) list \<Rightarrow> devices_page \<Rightarrow> devices_page" where
  "add_device_rows [] p = p"
| "add_device_rows (ic # ics) p =
     add_device_rows ics
       (p\<lparr>listbox_devices :=
            list_box_add
              \<lparr>row_card = snd ic,
               device_title_label = card_get_display_name (snd ic),
               device_name_label = card_name (snd ic)\<rparr>
              (listbox_devices p)\<rparr>)"

definition DevicesPage_show_all :: "devices_page \<Rightarrow> devices_page" where
  "DevicesPage_show_all p =
     p\<lparr>visible := True,
       lbl_dev_props_placeholder := widget_show (lbl_dev_props_placeholder p),
       box_dev_props := widget_show (box_dev_props p),
       lbl_port_props_placeholder := widget_show (lbl_port_props_placeholder p),
       box_port_props := widget_show (box_port_props p)\<rparr>"

definition DevicesPage_initialise ::
  "devices_page \<times> indicator \<Rightarrow> devices_page \<times> indicator" where
  "DevicesPage_initialise s =
     (let p1 = add_device_rows (cards (snd s)) (fst s);
          p2 = DevicesPage_show_all p1;
          p3 = update_dev_props_widgets p2;
          p4 = update_port_props_widgets p3
      in (p4, snd s))"

text \<open>
  What the user can do on the devices page. Selecting a row (or none) in a list box sets
  the selection and emits \<open>row-selected\<close>; a row that is not in the list cannot be
  selected. The other controls have no handler connected, so they change their own state
  only; the profile dropdown can only take one of its items.
\<close>

datatype devices_event =
    SelectDevice "nat option"
  | SelectPort "nat option"
  | EditDevName string
  | TogglePortVisible
  | EditPortName string
  | TogglePortAlwaysAvail
  | SetPrefProfile nat

definition select_device :: "nat option \<Rightarrow> devices_page \<Rightarrow> devices_page" where
  "select_device r p =
     (case r of
        None \<Rightarrow>
          on_device_row_selected
            (p\<lparr>listbox_devices := (listbox_devices p)\<lparr>selected := None\<rparr>\<rparr>)
      | Some i \<Rightarrow>
          if i < length (rows (listbox_devices p))
          then on_device_row_selected
                 (p\<lparr>listbox_devices := (listbox_devices p)\<lparr>selected := Some i\<rparr>\<rparr>)
          else p)"

definition select_port :: "nat option \<Rightarrow> devices_page \<Rightarrow> devices_page" where
  "select_port r p =
     (case r of
        None \<Rightarrow>
          on_port_row_selected (p\<lparr>listbox_ports := (listbox_ports p)\<lparr>selected := None\<rparr>\<rparr>)
      | Some i \<Rightarrow>
          if i < length (rows (listbox_ports p))
          then on_port_row_selected
                 (p\<lparr>listbox_ports := (listbox_ports p)\<lparr>selected := Some i\<rparr>\<rparr>)
          else p)"

fun on_devices_event :: "devices_event \<Rightarrow> devices_page \<Rightarrow> devices_page" where
  "on_devices_event (SelectDevice r) p = select_device r p"
| "on_devices_event (SelectPort r) p = select_port r p"
| "on_devices_event (EditDevName t) p = p\<lparr>entry_dev_name := t\<rparr>"
| "on_devices_event TogglePortVisible p =
     p\<lparr>switch_port_visible :=
         (switch_port_visible p)\<lparr>active := \<not> active (switch_port_visible p)\<rparr>\<rparr>"
| "on_devices_event (EditPortName t) p = p\<lparr>entry_port_name := t\<rparr>"
| "on_devices_event TogglePortAlwaysAvail p =
     p\<lparr>switch_port_always_avail :=
         (switch_port_always_avail p)\<lparr>active := \<not> active (switch_port_always_avail p)\<rparr>\<rparr>"
| "on_devices_event (SetPrefProfile k) p =
     (if k < length (items (cbox_port_pref_profile p))
      then p\<lparr>cbox_port_pref_profile := (cbox_port_pref_profile p)\<lparr>active_item := Some k\<rparr>\<rparr>
      else p)"

datatype general_event = ToggleInputs | ToggleOutputs

fun on_general_event ::
  "general_event \<Rightarrow> general_page \<times> indicator \<Rightarrow> general_page \<times> indicator" where
  "on_general_event ToggleInputs s = toggle_inputs s"
| "on_general_event ToggleOutputs s = toggle_outputs s"

subsection \<open>MainNotebook and PreferencesDialog\<close>

datatype page = GeneralP general_page | DevicesP devices_page

fun page_is_initialised :: "page \<Rightarrow> bool" where
  "page_is_initialised (GeneralP p) = is_initialised p"
| "page_is_initialised (DevicesP p) = is_initialised p"

fun page_get_label_widget :: "page \<Rightarrow> string" where
  "page_get_label_widget (GeneralP p) = get_label_widget p"
| "page_get_label_widget (DevicesP p) = get_label_widget p"

fun page_on_activate :: "page \<times> indicator \<Rightarrow> page \<times> indicator" where
  "page_on_activate (GeneralP p, ind) =
     (let s = on_activate GeneralPage_initialise (p, ind) in (GeneralP (fst s), snd s))"
| "page_on_activate (DevicesP p, ind) =
     (let s = on_activate DevicesPage_initialise (p, ind) in (DevicesP (fst s), snd s))"

fun page_show_all :: "page \<Rightarrow> page" where
  "page_show_all (GeneralP p) = GeneralP (GeneralPage_show_all p)"
| "page_show_all (DevicesP p) = DevicesP (DevicesPage_show_all p)"

text \<open>
  The notebook's children, each with its tab label, in the order of the tabs, and the
  index of the page it shows (none before the first \<open>switch-page\<close>).
\<close>

record main_notebook =
  nb_pages :: "(page \<times> string) list"
  current_page :: "nat option"

definition append_page :: "page \<Rightarrow> string \<Rightarrow> main_notebook \<Rightarrow> main_notebook" where
  "append_page pg lbl nb = nb\<lparr>nb_pages := nb_pages nb @ [(pg, lbl)]\<rparr>"

definition add_page :: "page \<Rightarrow> main_notebook \<Rightarrow> main_notebook" where
  "add_page pg nb = append_page pg (page_get_label_widget pg) nb"

definition MainNotebook_init :: "(string \<Rightarrow> string) \<Rightarrow> main_notebook" where
  "MainNotebook_init tr =
     add_page (DevicesP (DevicesPage_init tr))
       (add_page (GeneralP (GeneralPage_init tr))
          \<lparr>nb_pages = [], current_page = None\<rparr>)"

definition on_switch_page :: "page \<times> indicator \<Rightarrow> nat \<Rightarrow> page \<times> indicator" where
  "on_switch_page s index = page_on_activate s"

record preferences_dialog =
  the_indicator :: indicator
  notebook :: main_notebook

definition notebook_show_all :: "main_notebook \<Rightarrow> main_notebook" where
  "notebook_show_all nb =
     nb\<lparr>nb_pages := map (\<lambda>pl. (page_show_all (fst pl), snd pl)) (nb_pages nb)\<rparr>"

definition PreferencesDialog_init ::
  "(string \<Rightarrow> string) \<Rightarrow> indicator \<Rightarrow> preferences_dialog" where
  "PreferencesDialog_init tr ind =
     \<lparr>the_indicator = ind, notebook = notebook_show_all (MainNotebook_init tr)\<rparr>"

text \<open>
  The signals the toolkit delivers to the dialog: \<open>switch-page\<close> when the notebook
  shows the page with the given index, and the events of the widgets of the page with
  the given index (a page has the widgets of its own class only).
\<close>

datatype widget_event = OnGeneral general_event | OnDevices devices_event

datatype event = SwitchPage nat | Widget nat widget_event

fun on_widget_event :: "widget_event \<Rightarrow> page \<times> indicator \<Rightarrow> page \<times> indicator" where
  "on_widget_event (OnGeneral e) (GeneralP p, ind) =
     (let s = on_general_event e (p, ind) in (GeneralP (fst s), snd s))"
| "on_widget_event (OnDevices e) (DevicesP p, ind) = (DevicesP (on_devices_event e p), ind)"
| "on_widget_event e s = s"

definition at_page ::
  "nat \<Rightarrow> (page \<times> indicator \<Rightarrow> page \<times> indicator) \<Rightarrow>
   preferences_dialog \<Rightarrow> preferences_dialog" where
  "at_page i f d =
     (let ps = nb_pages (notebook d)
      in if i < length ps
         then (let s = f (fst (ps ! i), the_indicator d)
               in d\<lparr>the_indicator := snd s,
                    notebook := (notebook d)\<lparr>nb_pages := ps[i := (fst s, snd (ps ! i))]\<rparr>\<rparr>)
         else d)"

fun step :: "event \<Rightarrow> preferences_dialog \<Rightarrow> preferences_dialog" where
  "step (SwitchPage i) d =
     (if i < length (nb_pages (notebook d))
      then at_page i (\<lambda>s. on_switch_page s i)
             (d\<lparr>notebook := (notebook d)\<lparr>current_page := Some i\<rparr>\<rparr>)
      else d)"
| "step (Widget i e) d = at_page i (on_widget_event e) d"

fun run :: "event list \<Rightarrow> preferences_dialog \<Rightarrow> preferences_dialog" where
  "run [] d = d"
| "run (e # es) d = run es (step e d)"

subsection \<open>Observers used in the statements\<close>

text \<open>The config keys written by a sequence of calls on the indicator, in order.\<close>

fun written_keys :: "call list \<Rightarrow> string list" where
  "written_keys [] = []"
| "written_keys (ConfigSet k v # cs) = k # written_keys cs"
| "written_keys (OnRefresh # cs) = written_keys cs"

text \<open>Page activations and row selections.\<close>

fun is_navigation :: "event \<Rightarrow> bool" where
  "is_navigation (SwitchPage i) = True"
| "is_navigation (Widget i (OnDevices (SelectDevice r))) = True"
| "is_navigation (Widget i (OnDevices (SelectPort r))) = True"
| "is_navigation e = False"

text \<open>
  Interactions with the per-port controls (visibility switch, custom-name entry, always
  available switch, preferred-profile dropdown) and with the device custom-name entry.
\<close>

fun is_props_control :: "event \<Rightarrow> bool" where
  "is_props_control (Widget i (OnDevices (EditDevName t))) = True"
| "is_props_control (Widget i (OnDevices TogglePortVisible)) = True"
| "is_props_control (Widget i (OnDevices (EditPortName t))) = True"
| "is_props_control (Widget i (OnDevices TogglePortAlwaysAvail)) = True"
| "is_props_control (Widget i (OnDevices (SetPrefProfile k))) = True"
| "is_props_control e = False"

text \<open>
  An \<open>initialise\<close> that also counts its own runs, in a counter kept beside the state it
  works on.
\<close>

definition counting ::
  "('p \<times> 'i \<Rightarrow> 'p \<times> 'i) \<Rightarrow> 'p \<times> ('i \<times> nat) \<Rightarrow> 'p \<times> ('i \<times> nat)" where
  "counting initialise s =
     (let s' = initialise (fst s, fst (snd s)) in (fst s', (snd s', Suc (snd (snd s)))))"

text \<open>The row that \<open>update_dev_props_widgets\<close> builds for a port, and \<open>initialise\<close> for a card.\<close>

definition port_row_of :: "string \<times> port \<Rightarrow> port_row" where
  "port_row_of np =
     \<lparr>row_port = snd np, port_title_label = port_get_display_name (snd np),
      port_name_label = port_name (snd np)\<rparr>"

definition device_row_of :: "nat \<times> card \<Rightarrow> device_row" where
  "device_row_of ic =
     \<lparr>row_card = snd ic, device_title_label = card_get_display_name (snd ic),
      device_name_label = card_name (snd ic)\<rparr>"

text \<open>The page the notebook shows, if any, is one of its pages and is initialised.\<close>

definition current_ok :: "preferences_dialog \<Rightarrow> bool" where
  "current_ok d =
     (case current_page (notebook d) of
        None \<Rightarrow> True
      | Some i \<Rightarrow> i < length (nb_pages (notebook d))
                 \<and> page_is_initialised (fst (nb_pages (notebook d) ! i)))"

text \<open>
  An initialised general page shows what the config holds; the devices list of an
  initialised devices page has the rows of the cards, and that of a page not yet
  initialised has none.
\<close>

definition general_in_step :: "general_page \<Rightarrow> indicator \<Rightarrow> bool" where
  "general_in_step p ind =
     (if is_initialised p
      then active (switch_inputs p) = config_getitem (config ind) (''show_inputs'', True)
           \<and> active (switch_outputs p) = config_getitem (config ind) (''show_outputs'', True)
      else True)"

definition devices_filled :: "devices_page \<Rightarrow> (nat \<times> card) list \<Rightarrow> bool" where
  "devices_filled p cs =
     (rows (listbox_devices p) = (if is_initialised p then map device_row_of cs else []))"

fun pages_inv :: "(nat \<times> card) list \<Rightarrow> indicator \<Rightarrow> (page \<times> string) list \<Rightarrow> bool" where
  "pages_inv cs ind [(GeneralP g, l0), (DevicesP v, l1)] =
     (general_in_step g ind \<and> devices_filled v cs)"
| "pages_inv cs ind ps = False"

definition dialog_inv :: "(nat \<times> card) list \<Rightarrow> preferences_dialog \<Rightarrow> bool" where
  "dialog_inv cs d =
     (cards (the_indicator d) = cs \<and> pages_inv cs (the_indicator d) (nb_pages (notebook d)))"

subsection \<open>A concrete indicator for the examples\<close>

definition speakers :: port where
  "speakers =
     \<lparr>port_name = ''analog-output-speaker'', port_display_name = ''Speakers'',
      port_get_display_name = ''Speakers''\<rparr>"

definition headphones :: port where
  "headphones =
     \<lparr>port_name = ''analog-output-headphones'', port_display_name = ''Headphones'',
      port_get_display_name = ''Headphones''\<rparr>"

definition builtin_audio :: card where
  "builtin_audio =
     \<lparr>card_name = ''alsa_card.pci-0000_00_1b.0'', card_display_name = ''Built-in Audio'',
      card_get_display_name = ''Built-in Audio'',
      card_ports = [(''analog-output-speaker'', speakers),
                    (''analog-output-headphones'', headphones)]\<rparr>"

definition usb_headset :: card where
  "usb_headset =
     \<lparr>card_name = ''alsa_card.usb-0d8c'', card_display_name = ''USB Headset'',
      card_get_display_name = ''USB Headset'', card_ports = []\<rparr>"

definition example_indicator :: indicator where
  "example_indicator =
     \<lparr>config = Map.empty, cards = [(0, builtin_audio), (1, usb_headset)], calls = []\<rparr>"

definition example_dialog :: preferences_dialog where
  "example_dialog = PreferencesDialog_init (\<lambda>msg. msg) example_indicator"

definition example_devices_page :: devices_page where
  "example_devices_page =
     (DevicesPage_init (\<lambda>msg. msg))
       \<lparr>listbox_devices := \<lparr>rows = [device_row_of (0, builtin_audio)], selected = Some 0\<rparr>\<rparr>"

section \<open>Properties\<close>

subsection \<open>What the handlers keep and change\<close>

lemma update_port_frame:
  "listbox_ports (update_port_props_widgets p) = listbox_ports p"
  "listbox_devices (update_port_props_widgets p) = listbox_devices p"
  "lbl_dev_props_placeholder (update_port_props_widgets p) = lbl_dev_props_placeholder p"
  "box_dev_props (update_port_props_widgets p) = box_dev_props p"
  "entry_dev_name (update_port_props_widgets p) = entry_dev_name p"
  "is_initialised (update_port_props_widgets p) = is_initialised p"
  by (simp_all add: update_port_props_widgets_def split: option.split)

lemma remove0_rows:
  "rows (listbox_ports (listbox_ports_remove 0 p)) = drop 1 (rows (listbox_ports p))"
  by (simp add: listbox_ports_remove_def Let_def on_port_row_selected_def update_port_frame
           split: option.split)

lemma remove0_frame:
  "listbox_devices (listbox_ports_remove i p) = listbox_devices p"
  "lbl_dev_props_placeholder (listbox_ports_remove i p) = lbl_dev_props_placeholder p"
  "box_dev_props (listbox_ports_remove i p) = box_dev_props p"
  "entry_dev_name (listbox_ports_remove i p) = entry_dev_name p"
  "is_initialised (listbox_ports_remove i p) = is_initialised p"
  by (simp_all add: listbox_ports_remove_def Let_def on_port_row_selected_def update_port_frame
           split: option.split)

lemma remove_port_rows_rows:
  "rows (listbox_ports (remove_port_rows rs p)) = drop (length rs) (rows (listbox_ports p))"
  by (induction rs arbitrary: p) (simp_all add: remove0_rows)

lemma remove_port_rows_frame:
  "listbox_devices (remove_port_rows rs p) = listbox_devices p"
  "lbl_dev_props_placeholder (remove_port_rows rs p) = lbl_dev_props_placeholder p"
  "box_dev_props (remove_port_rows rs p) = box_dev_props p"
  "entry_dev_name (remove_port_rows rs p) = entry_dev_name p"
  "is_initialised (remove_port_rows rs p) = is_initialised p"
  by (induction rs arbitrary: p) (simp_all add: remove0_frame)

lemma add_port_rows_rows:
  "rows (listbox_ports (add_port_rows nps p)) = rows (listbox_ports p) @ map port_row_of nps"
  by (induction nps arbitrary: p) (simp_all add: list_box_add_def port_row_of_def)

lemma add_port_rows_frame:
  "selected (listbox_ports (add_port_rows nps p)) = selected (listbox_ports p)"
  "listbox_devices (add_port_rows nps p) = listbox_devices p"
  "lbl_dev_props_placeholder (add_port_rows nps p) = lbl_dev_props_placeholder p"
  "box_dev_props (add_port_rows nps p) = box_dev_props p"
  "entry_dev_name (add_port_rows nps p) = entry_dev_name p"
  "is_initialised (add_port_rows nps p) = is_initialised p"
  by (induction nps arbitrary: p) (simp_all add: list_box_add_def)

lemma add_device_rows_rows:
  "rows (listbox_devices (add_device_rows ics p)) = rows (listbox_devices p) @ map device_row_of ics"
  by (induction ics arbitrary: p) (simp_all add: list_box_add_def device_row_of_def)

lemma add_device_rows_frame:
  "selected (listbox_devices (add_device_rows ics p)) = selected (listbox_devices p)"
  "listbox_ports (add_device_rows ics p) = listbox_ports p"
  "is_initialised (add_device_rows ics p) = is_initialised p"
  by (induction ics arbitrary: p) (simp_all add: list_box_add_def)

lemma update_dev_frame:
  "listbox_devices (update_dev_props_widgets p) = listbox_devices p"
  "is_initialised (update_dev_props_widgets p) = is_initialised p"
  by (simp_all add: update_dev_props_widgets_def Let_def remove_port_rows_frame add_port_rows_frame
        split: option.split)

lemma update_dev_rows:
  "rows (listbox_ports (update_dev_props_widgets p)) =
     (case get_selected_row (listbox_devices p) of None \<Rightarrow> []
      | Some r \<Rightarrow> map port_row_of (card_ports (row_card r)))"
  by (simp add: update_dev_props_widgets_def Let_def remove_port_rows_rows add_port_rows_rows
        split: option.split)

lemma update_dev_visible:
  "visible (lbl_dev_props_placeholder (update_dev_props_widgets p)) = (get_selected_row (listbox_devices p) = None)"
  "visible (box_dev_props (update_dev_props_widgets p)) = (get_selected_row (listbox_devices p) \<noteq> None)"
  by (simp_all add: update_dev_props_widgets_def Let_def widget_show_def widget_hide_def
        split: option.split)

lemma update_port_visible:
  "visible (lbl_port_props_placeholder (update_port_props_widgets p)) = (get_selected_row (listbox_ports p) = None)"
  "visible (box_port_props (update_port_props_widgets p)) = (get_selected_row (listbox_ports p) \<noteq> None)"
  by (simp_all add: update_port_props_widgets_def widget_show_def widget_hide_def
        split: option.split)


lemma handler_inputs_uninit: "\<not> is_initialised (fst s) \<Longrightarrow> on_switch_inputs_set w s = s"
  by (simp add: on_switch_inputs_set_def)

lemma handler_outputs_uninit: "\<not> is_initialised (fst s) \<Longrightarrow> on_switch_outputs_set w s = s"
  by (simp add: on_switch_outputs_set_def)

lemma general_initialise_indicator:
  "\<not> is_initialised (fst s) \<Longrightarrow> snd (GeneralPage_initialise s) = snd s"
  by (simp add: GeneralPage_initialise_def Let_def switch_inputs_set_active_def
        switch_outputs_set_active_def on_switch_inputs_set_def on_switch_outputs_set_def)

lemma devices_initialise_indicator: "snd (DevicesPage_initialise s) = snd s"
  by (simp add: DevicesPage_initialise_def Let_def)

lemma on_activate_initialised: "is_initialised (fst (on_activate init s))"
  by (simp add: on_activate_def Let_def)

lemma on_activate_fixed: "is_initialised (fst s) \<Longrightarrow> on_activate init s = s"
  by (simp add: on_activate_def)

lemma page_on_activate_indicator: "snd (page_on_activate s) = snd s"
proof (cases s)
  case (Pair pg ind)
  show ?thesis
  proof (cases pg)
    case (GeneralP p)
    with Pair show ?thesis
      by (simp add: on_activate_def Let_def general_initialise_indicator)
  next
    case (DevicesP p)
    with Pair show ?thesis
      by (simp add: on_activate_def Let_def devices_initialise_indicator)
  qed
qed

lemma page_on_activate_initialised: "page_is_initialised (fst (page_on_activate s))"
proof (cases s)
  case (Pair pg ind)
  then show ?thesis
    by (cases pg) (simp_all add: Let_def on_activate_initialised)
qed

lemma toggle_inputs_initialised:
  "is_initialised (fst (toggle_inputs s)) = is_initialised (fst s)"
  by (simp add: toggle_inputs_def switch_inputs_set_active_def on_switch_inputs_set_def Let_def)

lemma toggle_outputs_initialised:
  "is_initialised (fst (toggle_outputs s)) = is_initialised (fst s)"
  by (simp add: toggle_outputs_def switch_outputs_set_active_def on_switch_outputs_set_def Let_def)

lemma on_devices_event_initialised:
  "is_initialised (on_devices_event e p) = is_initialised p"
  by (cases e)
     (simp_all add: select_device_def select_port_def on_device_row_selected_def
        on_port_row_selected_def update_dev_frame update_port_frame split: option.split)

lemma on_widget_event_initialised:
  "page_is_initialised (fst (on_widget_event e s)) = page_is_initialised (fst s)"
proof (cases s)
  case (Pair pg ind)
  show ?thesis
  proof (cases e)
    case (OnGeneral g)
    with Pair show ?thesis
      by (cases pg; cases g)
         (simp_all add: Let_def toggle_inputs_initialised toggle_outputs_initialised)
  next
    case (OnDevices v)
    with Pair show ?thesis
      by (cases pg) (simp_all add: on_devices_event_initialised)
  qed
qed


lemma written_keys_append:
  "written_keys (xs @ ys) = written_keys xs @ written_keys ys"
  by (induction xs rule: written_keys.induct) simp_all


lemma toggle_inputs_calls:
  "\<exists>new. calls (snd (toggle_inputs s)) = calls (snd s) @ new
     \<and> set (written_keys new) \<subseteq> {''show_inputs'', ''show_outputs''}"
  by (simp add: toggle_inputs_def switch_inputs_set_active_def on_switch_inputs_set_def Let_def
        on_refresh_def config_setitem_def)

lemma toggle_outputs_calls:
  "\<exists>new. calls (snd (toggle_outputs s)) = calls (snd s) @ new
     \<and> set (written_keys new) \<subseteq> {''show_inputs'', ''show_outputs''}"
  by (simp add: toggle_outputs_def switch_outputs_set_active_def on_switch_outputs_set_def Let_def
        on_refresh_def config_setitem_def)

lemma on_widget_event_calls:
  "\<exists>new. calls (snd (on_widget_event e s)) = calls (snd s) @ new
     \<and> set (written_keys new) \<subseteq> {''show_inputs'', ''show_outputs''}"
proof (cases s)
  case (Pair pg ind)
  show ?thesis
  proof (cases e)
    case (OnGeneral g)
    show ?thesis
    proof (cases pg)
      case (GeneralP p)
      with Pair OnGeneral show ?thesis
        using toggle_inputs_calls [of "(p, ind)"] toggle_outputs_calls [of "(p, ind)"]
        by (cases g) (simp_all add: Let_def)
    next
      case (DevicesP p)
      with Pair OnGeneral show ?thesis by simp
    qed
  next
    case (OnDevices v)
    with Pair show ?thesis by (cases pg) simp_all
  qed
qed

lemma at_page_indicator:
  "the_indicator (at_page i f d) =
     (if i < length (nb_pages (notebook d))
      then snd (f (fst (nb_pages (notebook d) ! i), the_indicator d))
      else the_indicator d)"
  by (simp add: at_page_def Let_def)

lemma at_page_length:
  "length (nb_pages (notebook (at_page i f d))) = length (nb_pages (notebook d))"
  by (simp add: at_page_def Let_def)

lemma at_page_current:
  "current_page (notebook (at_page i f d)) = current_page (notebook d)"
  by (simp add: at_page_def Let_def)

lemma at_page_nth:
  "j < length (nb_pages (notebook d)) \<Longrightarrow>
   fst (nb_pages (notebook (at_page i f d)) ! j) =
     (if j = i then fst (f (fst (nb_pages (notebook d) ! i), the_indicator d))
      else fst (nb_pages (notebook d) ! j))"
  by (simp add: at_page_def Let_def nth_list_update)

lemma step_length:
  "length (nb_pages (notebook (step e d))) = length (nb_pages (notebook d))"
  by (cases e) (simp_all add: at_page_length)

lemma run_length:
  "length (nb_pages (notebook (run evs d))) = length (nb_pages (notebook d))"
  by (induction evs arbitrary: d) (simp_all add: step_length)

lemma step_keeps_initialised:
  assumes "j < length (nb_pages (notebook d))"
    and "page_is_initialised (fst (nb_pages (notebook d) ! j))"
  shows "page_is_initialised (fst (nb_pages (notebook (step e d)) ! j))"
proof (cases e)
  case (SwitchPage i)
  with assms show ?thesis
    by (simp add: at_page_nth on_switch_page_def page_on_activate_initialised)
next
  case (Widget i w)
  with assms show ?thesis
    by (auto simp add: at_page_nth on_widget_event_initialised)
qed

lemma run_keeps_initialised:
  "j < length (nb_pages (notebook d)) \<Longrightarrow>
   page_is_initialised (fst (nb_pages (notebook d) ! j)) \<Longrightarrow>
   page_is_initialised (fst (nb_pages (notebook (run evs d)) ! j))"
  by (induction evs arbitrary: d) (simp_all add: step_length step_keeps_initialised)

lemma step_switch_initialises:
  "i < length (nb_pages (notebook d)) \<Longrightarrow>
   page_is_initialised (fst (nb_pages (notebook (step (SwitchPage i) d)) ! i))"
  by (simp add: at_page_nth on_switch_page_def page_on_activate_initialised)

lemma run_switch_initialises:
  "SwitchPage i \<in> set evs \<Longrightarrow> i < length (nb_pages (notebook d)) \<Longrightarrow>
   page_is_initialised (fst (nb_pages (notebook (run evs d)) ! i))"
proof (induction evs arbitrary: d)
  case Nil
  then show ?case by simp
next
  case (Cons e evs)
  show ?case
  proof (cases "e = SwitchPage i")
    case True
    have "page_is_initialised (fst (nb_pages (notebook (step e d)) ! i))"
      using True Cons.prems(2) step_switch_initialises by simp
    then show ?thesis
      using Cons.prems(2) by (simp add: run_keeps_initialised step_length)
  next
    case False
    with Cons.prems have "SwitchPage i \<in> set evs" by auto
    then show ?thesis
      using Cons.IH [of "step e d"] Cons.prems(2) by (simp add: step_length)
  qed
qed

lemma step_current_ok: "current_ok d \<Longrightarrow> current_ok (step e d)"
proof (cases e)
  case (SwitchPage i)
  assume "current_ok d"
  with SwitchPage show ?thesis
    by (simp add: current_ok_def at_page_current at_page_length at_page_nth on_switch_page_def
          page_on_activate_initialised)
next
  case (Widget i w)
  assume "current_ok d"
  with Widget show ?thesis
    by (auto simp add: current_ok_def at_page_current at_page_length at_page_nth
          on_widget_event_initialised split: option.splits)
qed

lemma run_current_ok: "current_ok d \<Longrightarrow> current_ok (run evs d)"
  by (induction evs arbitrary: d) (simp_all add: step_current_ok)

lemma step_calls:
  "\<exists>new. calls (the_indicator (step e d)) = calls (the_indicator d) @ new
     \<and> set (written_keys new) \<subseteq> {''show_inputs'', ''show_outputs''}"
proof (cases e)
  case (SwitchPage i)
  then show ?thesis
    by (simp add: at_page_indicator on_switch_page_def page_on_activate_indicator)
next
  case (Widget i w)
  then show ?thesis
    using on_widget_event_calls [of w "(fst (nb_pages (notebook d) ! i), the_indicator d)"]
    by (simp add: at_page_indicator)
qed

lemma run_calls:
  "\<exists>new. calls (the_indicator (run evs d)) = calls (the_indicator d) @ new
     \<and> set (written_keys new) \<subseteq> {''show_inputs'', ''show_outputs''}"
proof (induction evs arbitrary: d)
  case Nil
  then show ?case by simp
next
  case (Cons e evs)
  obtain n1 where n1: "calls (the_indicator (step e d)) = calls (the_indicator d) @ n1"
      "set (written_keys n1) \<subseteq> {''show_inputs'', ''show_outputs''}"
    using step_calls [of e d] by blast
  obtain n2 where n2: "calls (the_indicator (run evs (step e d))) = calls (the_indicator (step e d)) @ n2"
      "set (written_keys n2) \<subseteq> {''show_inputs'', ''show_outputs''}"
    using Cons.IH [of "step e d"] by blast
  have "calls (the_indicator (run (e # evs) d)) = calls (the_indicator d) @ (n1 @ n2)"
    using n1 n2 by simp
  moreover have "set (written_keys (n1 @ n2)) \<subseteq> {''show_inputs'', ''show_outputs''}"
    using n1 n2 by (simp add: written_keys_append)
  ultimately show ?case by blast
qed

lemma step_navigation_indicator:
  "is_navigation e \<Longrightarrow> the_indicator (step e d) = the_indicator d"
proof (cases e)
  case (SwitchPage i)
  then show ?thesis
    by (simp add: at_page_indicator on_switch_page_def page_on_activate_indicator)
next
  case (Widget i w)
  assume "is_navigation e"
  with Widget obtain v where "w = OnDevices v"
    by (cases w) auto
  with Widget show ?thesis
    by (cases "fst (nb_pages (notebook d) ! i)") (simp_all add: at_page_indicator)
qed

lemma step_devices_indicator:
  "the_indicator (step (Widget i (OnDevices v)) d) = the_indicator d"
  by (cases "fst (nb_pages (notebook d) ! i)") (simp_all add: at_page_indicator)

lemma run_navigation_indicator:
  "list_all is_navigation evs \<Longrightarrow> the_indicator (run evs d) = the_indicator d"
  by (induction evs arbitrary: d) (simp_all add: step_navigation_indicator)

lemma step_props_indicator:
  "is_props_control e \<Longrightarrow> the_indicator (step e d) = the_indicator d"
proof (cases e)
  case (SwitchPage i)
  assume "is_props_control e"
  with SwitchPage show ?thesis by simp
next
  case (Widget i w)
  assume "is_props_control e"
  with Widget obtain v where "w = OnDevices v"
    by (cases w) auto
  with Widget show ?thesis by (simp only: step_devices_indicator)
qed


lemma on_activate_funpow: "(on_activate init ^^ Suc n) s = on_activate init s"
  by (induction n) (simp_all add: on_activate_initialised on_activate_fixed)

lemma on_activate_counting:
  "snd (snd ((on_activate (counting init) ^^ n) (p, i, c))) \<le> Suc c"
proof (cases n)
  case 0
  then show ?thesis by simp
next
  case (Suc m)
  then show ?thesis
    by (simp only: on_activate_funpow) (simp add: on_activate_def counting_def Let_def)
qed

subsection \<open>What holds of the dialog through every run\<close>

lemma pages_inv_iff:
  "pages_inv cs ind ps =
     (\<exists>g v l0 l1. ps = [(GeneralP g, l0), (DevicesP v, l1)]
        \<and> general_in_step g ind \<and> devices_filled v cs)"
  by (cases "(cs, ind, ps)" rule: pages_inv.cases) auto

lemma general_initialise_inputs:
  "active (switch_inputs (fst (GeneralPage_initialise s))) =
     config_getitem (config (snd s)) (''show_inputs'', True)"
  by (simp add: GeneralPage_initialise_def Let_def switch_inputs_set_active_def
        switch_outputs_set_active_def on_switch_inputs_set_def on_switch_outputs_set_def
        GeneralPage_show_all_def)

lemma general_initialise_outputs:
  "active (switch_outputs (fst (GeneralPage_initialise s))) =
     config_getitem (config (snd s)) (''show_outputs'', True)"
  by (simp add: GeneralPage_initialise_def Let_def switch_inputs_set_active_def
        switch_outputs_set_active_def on_switch_inputs_set_def on_switch_outputs_set_def
        GeneralPage_show_all_def config_getitem_def on_refresh_def config_setitem_def)

lemma general_activate_in_step:
  assumes "general_in_step g ind"
  shows "general_in_step (fst (on_activate GeneralPage_initialise (g, ind)))
           (snd (on_activate GeneralPage_initialise (g, ind)))"
proof (cases "is_initialised g")
  case True
  with assms show ?thesis by (simp add: on_activate_def)
next
  case False
  then have "snd (GeneralPage_initialise (g, ind)) = ind"
    using general_initialise_indicator [of "(g, ind)"] by simp
  with False show ?thesis
    using general_initialise_inputs [of "(g, ind)"] general_initialise_outputs [of "(g, ind)"]
    by (simp add: on_activate_def Let_def general_in_step_def)
qed

lemma toggle_inputs_in_step:
  "general_in_step g ind \<Longrightarrow>
   general_in_step (fst (toggle_inputs (g, ind))) (snd (toggle_inputs (g, ind)))"
  by (auto simp add: general_in_step_def toggle_inputs_def switch_inputs_set_active_def
        on_switch_inputs_set_def Let_def on_refresh_def config_setitem_def config_getitem_def
        get_active_def split: if_splits)

lemma toggle_outputs_in_step:
  "general_in_step g ind \<Longrightarrow>
   general_in_step (fst (toggle_outputs (g, ind))) (snd (toggle_outputs (g, ind)))"
  by (auto simp add: general_in_step_def toggle_outputs_def switch_outputs_set_active_def
        on_switch_outputs_set_def Let_def on_refresh_def config_setitem_def config_getitem_def
        get_active_def split: if_splits)

lemma toggle_cards:
  "cards (snd (toggle_inputs s)) = cards (snd s)"
  "cards (snd (toggle_outputs s)) = cards (snd s)"
  by (simp_all add: toggle_inputs_def toggle_outputs_def switch_inputs_set_active_def
        switch_outputs_set_active_def on_switch_inputs_set_def on_switch_outputs_set_def
        Let_def on_refresh_def config_setitem_def)

lemma on_devices_event_device_rows:
  "rows (listbox_devices (on_devices_event e p)) = rows (listbox_devices p)"
  by (cases e)
     (simp_all add: select_device_def select_port_def on_device_row_selected_def
        on_port_row_selected_def update_dev_frame update_port_frame split: option.split)

lemma on_devices_event_filled:
  "devices_filled v cs \<Longrightarrow> devices_filled (on_devices_event e v) cs"
  by (simp add: devices_filled_def on_devices_event_device_rows on_devices_event_initialised)

lemma devices_initialise_rows:
  "rows (listbox_devices (fst (DevicesPage_initialise (q, ind)))) =
     rows (listbox_devices q) @ map device_row_of (cards ind)"
  by (simp add: DevicesPage_initialise_def Let_def update_port_frame update_dev_frame
        add_device_rows_rows DevicesPage_show_all_def)

lemma devices_activate_filled:
  "devices_filled v (cards ind) \<Longrightarrow>
   devices_filled (fst (on_activate DevicesPage_initialise (v, ind))) (cards ind)"
  by (simp add: devices_filled_def on_activate_def Let_def devices_initialise_rows)

lemma step_dialog_inv:
  assumes "dialog_inv cs d"
  shows "dialog_inv cs (step e d)"
proof -
  from assms obtain g v l0 l1 where
    ps: "nb_pages (notebook d) = [(GeneralP g, l0), (DevicesP v, l1)]"
    and gi: "general_in_step g (the_indicator d)"
    and df: "devices_filled v cs"
    and cs: "cards (the_indicator d) = cs"
    by (auto simp add: dialog_inv_def pages_inv_iff)
  show ?thesis
  proof (cases e)
    case (SwitchPage i)
    consider "i = 0" | "i = 1" | "2 \<le> i" by linarith
    then show ?thesis
    proof cases
      case 1
      with SwitchPage ps cs df general_activate_in_step [OF gi] show ?thesis
        by (simp add: dialog_inv_def at_page_def Let_def on_switch_page_def
              general_initialise_indicator on_activate_def)
    next
      case 2
      with SwitchPage ps cs gi devices_activate_filled [of v "the_indicator d"] df show ?thesis
        by (simp add: dialog_inv_def at_page_def Let_def on_switch_page_def
              devices_initialise_indicator on_activate_def)
    next
      case 3
      with SwitchPage ps assms show ?thesis by simp
    qed
  next
    case (Widget i w)
    consider "i = 0" | "i = 1" | "2 \<le> i" by linarith
    then show ?thesis
    proof cases
      case 1
      show ?thesis
      proof (cases w)
        case (OnGeneral x)
        with 1 Widget ps cs df toggle_inputs_in_step [OF gi] toggle_outputs_in_step [OF gi]
        show ?thesis
          by (cases x) (simp_all add: dialog_inv_def at_page_def Let_def toggle_cards)
      next
        case (OnDevices x)
        with 1 Widget ps cs df gi show ?thesis
          by (simp add: dialog_inv_def at_page_def Let_def)
      qed
    next
      case 2
      show ?thesis
      proof (cases w)
        case (OnGeneral x)
        with 2 Widget ps cs df gi show ?thesis
          by (simp add: dialog_inv_def at_page_def Let_def)
      next
        case (OnDevices x)
        with 2 Widget ps cs gi on_devices_event_filled [OF df, of x] show ?thesis
          by (simp add: dialog_inv_def at_page_def Let_def)
      qed
    next
      case 3
      with Widget ps assms show ?thesis by (simp add: at_page_def Let_def)
    qed
  qed
qed

lemma run_dialog_inv: "dialog_inv cs d \<Longrightarrow> dialog_inv cs (run evs d)"
  by (induction evs arbitrary: d) (simp_all add: step_dialog_inv)

lemma init_dialog_inv: "dialog_inv (cards ind) (PreferencesDialog_init tr ind)"
  by (simp add: dialog_inv_def PreferencesDialog_init_def notebook_show_all_def
        MainNotebook_init_def add_page_def append_page_def general_in_step_def
        devices_filled_def GeneralPage_init_def DevicesPage_init_def GeneralPage_show_all_def
        DevicesPage_show_all_def)

subsection \<open>Behaviour of the dialog\<close>

text \<open>
  C1. On an initialised general page, the \<open>state-set\<close> handler of the inputs switch
  stores the switch's active state under \<open>show_inputs\<close> and then calls
  \<open>on_refresh\<close>; the handler of the outputs switch does the same with
  \<open>show_outputs\<close>. The two calls reach the indicator in this order, and a click on a
  switch stores the state the click has just given it.
\<close>

theorem switch_set_writes_config_then_refreshes:
  assumes "is_initialised p"
  shows "on_switch_inputs_set w (p, ind) =
           (p, ind\<lparr>config := (config ind)(''show_inputs'' \<mapsto> get_active w),
                   calls := calls ind @ [ConfigSet ''show_inputs'' (get_active w), OnRefresh]\<rparr>)
       \<and> on_switch_outputs_set w (p, ind) =
           (p, ind\<lparr>config := (config ind)(''show_outputs'' \<mapsto> get_active w),
                   calls := calls ind @ [ConfigSet ''show_outputs'' (get_active w), OnRefresh]\<rparr>)
       \<and> calls (snd (toggle_inputs (p, ind))) =
           calls ind @ [ConfigSet ''show_inputs'' (active (switch_inputs (fst (toggle_inputs (p, ind))))),
                        OnRefresh]
       \<and> calls (snd (toggle_outputs (p, ind))) =
           calls ind @ [ConfigSet ''show_outputs'' (active (switch_outputs (fst (toggle_outputs (p, ind))))),
                        OnRefresh]
       \<and> active (switch_inputs (fst (toggle_inputs (p, ind)))) = (\<not> active (switch_inputs p))
       \<and> active (switch_outputs (fst (toggle_outputs (p, ind)))) = (\<not> active (switch_outputs p))"
  using assms
  by (simp add: on_switch_inputs_set_def on_switch_outputs_set_def toggle_inputs_def
        toggle_outputs_def switch_inputs_set_active_def switch_outputs_set_active_def
        on_refresh_def config_setitem_def get_active_def Let_def)

theorem switch_set_writes_config_then_refreshes_witness:
  "is_initialised ((GeneralPage_init (\<lambda>msg. msg))\<lparr>is_initialised := True\<rparr>)
   \<and> calls (snd (toggle_inputs
        ((GeneralPage_init (\<lambda>msg. msg))\<lparr>is_initialised := True\<rparr>, example_indicator))) =
       [ConfigSet ''show_inputs'' True, OnRefresh]
   \<and> calls (snd (toggle_outputs
        ((GeneralPage_init (\<lambda>msg. msg))\<lparr>is_initialised := True\<rparr>, example_indicator))) =
       [ConfigSet ''show_outputs'' True, OnRefresh]"
  using switch_set_writes_config_then_refreshes
    [of "(GeneralPage_init (\<lambda>msg. msg))\<lparr>is_initialised := True\<rparr>" "\<lparr>active = True\<rparr>"
        example_indicator]
  by (simp add: GeneralPage_init_def example_indicator_def)

text \<open>
  C2. Whatever the user does in the dialog, the config keys the dialog writes are
  \<open>show_inputs\<close> and \<open>show_outputs\<close> only; and an interaction with a per-port control
  or with the device name entry, in any state of the dialog, leaves the indicator as it
  is: no config write and no other call.
\<close>

theorem dialog_writes_only_show_keys:
  "(\<exists>new. calls (the_indicator (run evs d)) = calls (the_indicator d) @ new
      \<and> set (written_keys new) \<subseteq> {''show_inputs'', ''show_outputs''})
   \<and> (is_props_control e \<longrightarrow> the_indicator (step e d) = the_indicator d)"
  using run_calls [of evs d] step_props_indicator [of e d] by blast

theorem dialog_writes_only_show_keys_witness:
  "is_props_control (Widget 1 (OnDevices (EditPortName ''Front'')))
   \<and> the_indicator (step (Widget 1 (OnDevices (EditPortName ''Front''))) example_dialog) =
       the_indicator example_dialog
   \<and> calls (the_indicator
        (run [SwitchPage 0, Widget 0 (OnGeneral ToggleInputs), SwitchPage 1,
              Widget 1 (OnDevices TogglePortVisible), Widget 0 (OnGeneral ToggleOutputs)]
           example_dialog)) =
       [ConfigSet ''show_inputs'' False, OnRefresh, ConfigSet ''show_outputs'' False, OnRefresh]
   \<and> (\<exists>new. calls (the_indicator
          (run [SwitchPage 0, Widget 0 (OnGeneral ToggleInputs), SwitchPage 1,
                Widget 1 (OnDevices TogglePortVisible), Widget 0 (OnGeneral ToggleOutputs)]
             example_dialog)) =
        calls (the_indicator example_dialog) @ new
        \<and> set (written_keys new) \<subseteq> {''show_inputs'', ''show_outputs''})"
proof -
  have ev: "calls (the_indicator
        (run [SwitchPage 0, Widget 0 (OnGeneral ToggleInputs), SwitchPage 1,
              Widget 1 (OnDevices TogglePortVisible), Widget 0 (OnGeneral ToggleOutputs)]
           example_dialog)) =
       [ConfigSet ''show_inputs'' False, OnRefresh, ConfigSet ''show_outputs'' False, OnRefresh]"
    by code_simp
  show ?thesis
    using ev dialog_writes_only_show_keys
      [of "[SwitchPage 0, Widget 0 (OnGeneral ToggleInputs), SwitchPage 1,
            Widget 1 (OnDevices TogglePortVisible), Widget 0 (OnGeneral ToggleOutputs)]"
          example_dialog "Widget 1 (OnDevices (EditPortName ''Front''))"]
    by simp
qed

text \<open>
  C3. A sequence of page activations and row selections leaves the indicator as it is:
  its cards, with their ports, are the same afterwards, and so is everything else of it.
\<close>

theorem navigation_leaves_device_model_unchanged:
  assumes "list_all is_navigation evs"
  shows "cards (the_indicator (run evs d)) = cards (the_indicator d)
       \<and> the_indicator (run evs d) = the_indicator d"
  using assms by (simp add: run_navigation_indicator)

theorem navigation_leaves_device_model_unchanged_witness:
  "list_all is_navigation
     [SwitchPage 1, Widget 1 (OnDevices (SelectDevice (Some 0))),
      Widget 1 (OnDevices (SelectPort (Some 1))), SwitchPage 0,
      Widget 1 (OnDevices (SelectDevice None))]
   \<and> cards (the_indicator
        (run [SwitchPage 1, Widget 1 (OnDevices (SelectDevice (Some 0))),
              Widget 1 (OnDevices (SelectPort (Some 1))), SwitchPage 0,
              Widget 1 (OnDevices (SelectDevice None))] example_dialog)) =
       [(0, builtin_audio), (1, usb_headset)]"
proof -
  have nav: "list_all is_navigation
     [SwitchPage 1, Widget 1 (OnDevices (SelectDevice (Some 0))),
      Widget 1 (OnDevices (SelectPort (Some 1))), SwitchPage 0,
      Widget 1 (OnDevices (SelectDevice None))]"
    by simp
  show ?thesis
    using nav navigation_leaves_device_model_unchanged [OF nav, of example_dialog]
    by (simp add: example_dialog_def PreferencesDialog_init_def example_indicator_def)
qed

text \<open>
  C4. The notebook is built with two pages: the general page first and the devices page
  second, each with the label widget of its own title as its tab label.
\<close>

theorem notebook_has_general_then_devices:
  "nb_pages (MainNotebook_init tr) =
     [(GeneralP (GeneralPage_init tr), tr ''_General''),
      (DevicesP (DevicesPage_init tr), tr ''_Devices'')]
   \<and> length (nb_pages (MainNotebook_init tr)) = 2
   \<and> map snd (nb_pages (MainNotebook_init tr)) =
       map (\<lambda>pl. page_get_label_widget (fst pl)) (nb_pages (MainNotebook_init tr))
   \<and> length (nb_pages (notebook (run evs (PreferencesDialog_init tr ind)))) = 2"
  by (simp add: MainNotebook_init_def add_page_def append_page_def get_label_widget_def
        GeneralPage_init_def DevicesPage_init_def run_length PreferencesDialog_init_def
        notebook_show_all_def)

text \<open>
  C5. \<open>GeneralPage.initialise\<close> looks up \<open>show_inputs\<close> and \<open>show_outputs\<close> in the
  config, each with the default \<open>True\<close>, and leaves the inputs switch and the outputs
  switch with the values it found; the same holds for the first activation of the page.
  An unset key gives \<open>True\<close>.
\<close>

theorem general_initialise_reads_config:
  "active (switch_inputs (fst (GeneralPage_initialise s))) =
     config_getitem (config (snd s)) (''show_inputs'', True)
   \<and> active (switch_outputs (fst (GeneralPage_initialise s))) =
     config_getitem (config (snd s)) (''show_outputs'', True)
   \<and> (\<not> is_initialised (fst s) \<longrightarrow>
        active (switch_inputs (fst (on_activate GeneralPage_initialise s))) =
          config_getitem (config (snd s)) (''show_inputs'', True)
        \<and> active (switch_outputs (fst (on_activate GeneralPage_initialise s))) =
          config_getitem (config (snd s)) (''show_outputs'', True))
   \<and> (config (snd s) ''show_inputs'' = None \<longrightarrow>
        active (switch_inputs (fst (GeneralPage_initialise s))))
   \<and> (config (snd s) ''show_outputs'' = None \<longrightarrow>
        active (switch_outputs (fst (GeneralPage_initialise s))))"
proof -
  have a: "active (switch_inputs (fst (GeneralPage_initialise s))) =
     config_getitem (config (snd s)) (''show_inputs'', True)"
    by (simp add: GeneralPage_initialise_def Let_def switch_inputs_set_active_def
          switch_outputs_set_active_def on_switch_inputs_set_def on_switch_outputs_set_def
          GeneralPage_show_all_def)
  have b: "active (switch_outputs (fst (GeneralPage_initialise s))) =
     config_getitem (config (snd s)) (''show_outputs'', True)"
    by (simp add: GeneralPage_initialise_def Let_def switch_inputs_set_active_def
          switch_outputs_set_active_def on_switch_inputs_set_def on_switch_outputs_set_def
          GeneralPage_show_all_def config_getitem_def on_refresh_def config_setitem_def)
  show ?thesis
    using a b by (simp add: on_activate_def Let_def config_getitem_def)
qed

theorem general_initialise_reads_config_witness:
  "\<not> is_initialised (GeneralPage_init (\<lambda>msg. msg))
   \<and> config example_indicator ''show_inputs'' = None
   \<and> active (switch_inputs (fst (on_activate GeneralPage_initialise
        (GeneralPage_init (\<lambda>msg. msg), example_indicator))))
   \<and> \<not> active (switch_outputs (fst (on_activate GeneralPage_initialise
        (GeneralPage_init (\<lambda>msg. msg),
         example_indicator\<lparr>config := [''show_outputs'' \<mapsto> False]\<rparr>))))"
  using general_initialise_reads_config
          [of "(GeneralPage_init (\<lambda>msg. msg), example_indicator)"]
        general_initialise_reads_config
          [of "(GeneralPage_init (\<lambda>msg. msg),
                example_indicator\<lparr>config := [''show_outputs'' \<mapsto> False]\<rparr>)"]
  by (simp add: GeneralPage_init_def example_indicator_def config_getitem_def)

text \<open>
  C6. \<open>DevicesPage.initialise\<close> appends to the devices list one row for each entry of
  \<open>indicator.cards\<close>, in the order of the entries; the row holds the entry's card and
  shows the card's display name and its name. On a new page these are all the rows.
\<close>

theorem devices_initialise_adds_row_per_card:
  "rows (listbox_devices (fst (DevicesPage_initialise (p, ind)))) =
     rows (listbox_devices p) @ map device_row_of (cards ind)
   \<and> rows (listbox_devices (fst (on_activate DevicesPage_initialise (DevicesPage_init tr, ind)))) =
     map device_row_of (cards ind)
   \<and> length (rows (listbox_devices
        (fst (on_activate DevicesPage_initialise (DevicesPage_init tr, ind))))) =
     length (cards ind)
   \<and> map row_card (rows (listbox_devices
        (fst (on_activate DevicesPage_initialise (DevicesPage_init tr, ind))))) =
     map snd (cards ind)
   \<and> map device_title_label (rows (listbox_devices
        (fst (on_activate DevicesPage_initialise (DevicesPage_init tr, ind))))) =
     map (\<lambda>ic. card_get_display_name (snd ic)) (cards ind)
   \<and> map device_name_label (rows (listbox_devices
        (fst (on_activate DevicesPage_initialise (DevicesPage_init tr, ind))))) =
     map (\<lambda>ic. card_name (snd ic)) (cards ind)"
proof -
  have a: "rows (listbox_devices (fst (DevicesPage_initialise (q, ind)))) =
     rows (listbox_devices q) @ map device_row_of (cards ind)" for q
    by (simp add: DevicesPage_initialise_def Let_def update_port_frame update_dev_frame
          add_device_rows_rows DevicesPage_show_all_def)
  have b: "rows (listbox_devices
      (fst (on_activate DevicesPage_initialise (DevicesPage_init tr, ind)))) =
     map device_row_of (cards ind)"
    using a [of "DevicesPage_init tr"]
    by (simp add: on_activate_def Let_def DevicesPage_init_def)
  show ?thesis
    unfolding b using a [of p] by (simp add: device_row_of_def comp_def)
qed

text \<open>
  C7. The \<open>switch-page\<close> handler calls \<open>on_activate\<close> of the page the notebook
  switches to: on a page not yet initialised this runs the page's \<open>initialise\<close> and
  sets the flag, and the notebook then holds that page. So in every run of the dialog
  a page the notebook has switched to is initialised at the end: the general page shows
  what the config holds, the devices list has one row for each card. The page the
  notebook shows is always an initialised one.
\<close>

theorem switch_page_initialises_displayed:
  "on_switch_page (GeneralP g, ind) i =
     (GeneralP (fst (on_activate GeneralPage_initialise (g, ind))),
      snd (on_activate GeneralPage_initialise (g, ind)))
   \<and> on_switch_page (DevicesP v, ind) i =
     (DevicesP (fst (on_activate DevicesPage_initialise (v, ind))),
      snd (on_activate DevicesPage_initialise (v, ind)))
   \<and> (\<not> is_initialised g \<longrightarrow>
        on_switch_page (GeneralP g, ind) i =
          (GeneralP ((fst (GeneralPage_initialise (g, ind)))\<lparr>is_initialised := True\<rparr>), ind))
   \<and> (\<not> is_initialised v \<longrightarrow>
        on_switch_page (DevicesP v, ind) i =
          (DevicesP ((fst (DevicesPage_initialise (v, ind)))\<lparr>is_initialised := True\<rparr>), ind))
   \<and> page_is_initialised (fst (on_switch_page s i))
   \<and> (i < length (nb_pages (notebook d)) \<longrightarrow>
        current_page (notebook (step (SwitchPage i) d)) = Some i
        \<and> fst (nb_pages (notebook (step (SwitchPage i) d)) ! i) =
            fst (on_switch_page (fst (nb_pages (notebook d) ! i), the_indicator d) i)
        \<and> page_is_initialised (fst (nb_pages (notebook (step (SwitchPage i) d)) ! i)))
   \<and> (SwitchPage i \<in> set evs \<and> i < length (nb_pages (notebook d)) \<longrightarrow>
        page_is_initialised (fst (nb_pages (notebook (run evs d)) ! i)))
   \<and> (SwitchPage 0 \<in> set evs \<longrightarrow>
        (\<exists>p l. nb_pages (notebook (run evs (PreferencesDialog_init tr ind))) ! 0 = (GeneralP p, l)
           \<and> is_initialised p
           \<and> active (switch_inputs p) =
               config_getitem (config (the_indicator (run evs (PreferencesDialog_init tr ind))))
                 (''show_inputs'', True)
           \<and> active (switch_outputs p) =
               config_getitem (config (the_indicator (run evs (PreferencesDialog_init tr ind))))
                 (''show_outputs'', True)))
   \<and> (SwitchPage 1 \<in> set evs \<longrightarrow>
        (\<exists>p l. nb_pages (notebook (run evs (PreferencesDialog_init tr ind))) ! 1 = (DevicesP p, l)
           \<and> is_initialised p
           \<and> rows (listbox_devices p) = map device_row_of (cards ind)))
   \<and> current_ok (run evs (PreferencesDialog_init tr ind))"
proof -
  let ?d0 = "PreferencesDialog_init tr ind"
  have h1: "on_switch_page (GeneralP g, ind) i =
     (GeneralP (fst (on_activate GeneralPage_initialise (g, ind))),
      snd (on_activate GeneralPage_initialise (g, ind)))"
    by (simp add: on_switch_page_def Let_def)
  have h2: "on_switch_page (DevicesP v, ind) i =
     (DevicesP (fst (on_activate DevicesPage_initialise (v, ind))),
      snd (on_activate DevicesPage_initialise (v, ind)))"
    by (simp add: on_switch_page_def Let_def)
  have h3: "\<not> is_initialised g \<longrightarrow>
        on_switch_page (GeneralP g, ind) i =
          (GeneralP ((fst (GeneralPage_initialise (g, ind)))\<lparr>is_initialised := True\<rparr>), ind)"
    using general_initialise_indicator [of "(g, ind)"]
    by (simp add: on_switch_page_def Let_def on_activate_def)
  have h4: "\<not> is_initialised v \<longrightarrow>
        on_switch_page (DevicesP v, ind) i =
          (DevicesP ((fst (DevicesPage_initialise (v, ind)))\<lparr>is_initialised := True\<rparr>), ind)"
    by (simp add: on_switch_page_def Let_def on_activate_def devices_initialise_indicator)
  have a: "page_is_initialised (fst (on_switch_page s i))"
    by (simp add: on_switch_page_def page_on_activate_initialised)
  have b: "i < length (nb_pages (notebook d)) \<longrightarrow>
        current_page (notebook (step (SwitchPage i) d)) = Some i
        \<and> fst (nb_pages (notebook (step (SwitchPage i) d)) ! i) =
            fst (on_switch_page (fst (nb_pages (notebook d) ! i), the_indicator d) i)
        \<and> page_is_initialised (fst (nb_pages (notebook (step (SwitchPage i) d)) ! i))"
    using step_switch_initialises [of i d] by (simp add: at_page_current at_page_nth)
  have c: "SwitchPage i \<in> set evs \<and> i < length (nb_pages (notebook d)) \<longrightarrow>
        page_is_initialised (fst (nb_pages (notebook (run evs d)) ! i))"
    using run_switch_initialises [of i evs d] by blast
  have len0: "length (nb_pages (notebook ?d0)) = 2"
    by (simp add: PreferencesDialog_init_def notebook_show_all_def MainNotebook_init_def
          add_page_def append_page_def)
  have "dialog_inv (cards ind) (run evs ?d0)"
    using init_dialog_inv run_dialog_inv by blast
  then obtain p q l0 l1 where
    ps: "nb_pages (notebook (run evs ?d0)) = [(GeneralP p, l0), (DevicesP q, l1)]"
    and gi: "general_in_step p (the_indicator (run evs ?d0))"
    and df: "devices_filled q (cards ind)"
    by (auto simp add: dialog_inv_def pages_inv_iff)
  have g0: "SwitchPage 0 \<in> set evs \<longrightarrow>
        (\<exists>p l. nb_pages (notebook (run evs ?d0)) ! 0 = (GeneralP p, l)
           \<and> is_initialised p
           \<and> active (switch_inputs p) =
               config_getitem (config (the_indicator (run evs ?d0))) (''show_inputs'', True)
           \<and> active (switch_outputs p) =
               config_getitem (config (the_indicator (run evs ?d0))) (''show_outputs'', True))"
  proof
    assume "SwitchPage 0 \<in> set evs"
    then have "page_is_initialised (fst (nb_pages (notebook (run evs ?d0)) ! 0))"
      using run_switch_initialises [of 0 evs ?d0] len0 by simp
    with ps have "is_initialised p" by simp
    with gi ps show "\<exists>p l. nb_pages (notebook (run evs ?d0)) ! 0 = (GeneralP p, l)
           \<and> is_initialised p
           \<and> active (switch_inputs p) =
               config_getitem (config (the_indicator (run evs ?d0))) (''show_inputs'', True)
           \<and> active (switch_outputs p) =
               config_getitem (config (the_indicator (run evs ?d0))) (''show_outputs'', True)"
      by (simp add: general_in_step_def)
  qed
  have g1: "SwitchPage 1 \<in> set evs \<longrightarrow>
        (\<exists>p l. nb_pages (notebook (run evs ?d0)) ! 1 = (DevicesP p, l)
           \<and> is_initialised p
           \<and> rows (listbox_devices p) = map device_row_of (cards ind))"
  proof
    assume "SwitchPage 1 \<in> set evs"
    then have "page_is_initialised (fst (nb_pages (notebook (run evs ?d0)) ! 1))"
      using run_switch_initialises [of 1 evs ?d0] len0 by simp
    with ps have "is_initialised q" by simp
    with df ps show "\<exists>p l. nb_pages (notebook (run evs ?d0)) ! 1 = (DevicesP p, l)
           \<and> is_initialised p
           \<and> rows (listbox_devices p) = map device_row_of (cards ind)"
      by (simp add: devices_filled_def)
  qed
  have "current_ok ?d0"
    by (simp add: current_ok_def PreferencesDialog_init_def notebook_show_all_def
          MainNotebook_init_def add_page_def append_page_def)
  then have e: "current_ok (run evs ?d0)"
    by (rule run_current_ok)
  show ?thesis using h1 h2 h3 h4 a b c g0 g1 e by blast
qed

theorem switch_page_initialises_displayed_witness:
  "SwitchPage 0 \<in> set [SwitchPage 1, Widget 1 (OnDevices (SelectDevice (Some 0))), SwitchPage 0]
   \<and> SwitchPage 1 \<in> set [SwitchPage 1, Widget 1 (OnDevices (SelectDevice (Some 0))), SwitchPage 0]
   \<and> (1::nat) < length (nb_pages (notebook example_dialog))
   \<and> \<not> page_is_initialised (fst (nb_pages (notebook example_dialog) ! 1))
   \<and> page_is_initialised (fst (nb_pages (notebook
        (run [SwitchPage 1, Widget 1 (OnDevices (SelectDevice (Some 0))), SwitchPage 0]
           example_dialog)) ! 1))
   \<and> current_page (notebook (step (SwitchPage 1) example_dialog)) = Some 1
   \<and> (case fst (nb_pages (notebook
        (run [SwitchPage 1, Widget 1 (OnDevices (SelectDevice (Some 0))), SwitchPage 0]
           example_dialog)) ! 1) of
        DevicesP p \<Rightarrow> map device_name_label (rows (listbox_devices p))
      | GeneralP p \<Rightarrow> []) = [''alsa_card.pci-0000_00_1b.0'', ''alsa_card.usb-0d8c'']
   \<and> (case fst (nb_pages (notebook
        (run [SwitchPage 1, Widget 1 (OnDevices (SelectDevice (Some 0))), SwitchPage 0]
           example_dialog)) ! 0) of
        GeneralP p \<Rightarrow> active (switch_inputs p) \<and> active (switch_outputs p)
      | DevicesP p \<Rightarrow> False)
   \<and> (\<exists>p l. nb_pages (notebook
        (run [SwitchPage 1, Widget 1 (OnDevices (SelectDevice (Some 0))), SwitchPage 0]
           example_dialog)) ! 1 = (DevicesP p, l)
        \<and> is_initialised p
        \<and> rows (listbox_devices p) = map device_row_of (cards example_indicator))"
proof -
  let ?evs = "[SwitchPage 1, Widget 1 (OnDevices (SelectDevice (Some 0))), SwitchPage 0]"
  have len: "length (nb_pages (notebook example_dialog)) = 2"
    by (simp add: example_dialog_def PreferencesDialog_init_def notebook_show_all_def
          MainNotebook_init_def add_page_def append_page_def)
  have fresh: "\<not> page_is_initialised (fst (nb_pages (notebook example_dialog) ! 1))"
    by (simp add: example_dialog_def PreferencesDialog_init_def notebook_show_all_def
          MainNotebook_init_def add_page_def append_page_def DevicesPage_init_def
          DevicesPage_show_all_def)
  have names: "(case fst (nb_pages (notebook (run ?evs example_dialog)) ! 1) of
        DevicesP p \<Rightarrow> map device_name_label (rows (listbox_devices p))
      | GeneralP p \<Rightarrow> []) = [''alsa_card.pci-0000_00_1b.0'', ''alsa_card.usb-0d8c'']"
    by code_simp
  have shown: "(case fst (nb_pages (notebook (run ?evs example_dialog)) ! 0) of
        GeneralP p \<Rightarrow> active (switch_inputs p) \<and> active (switch_outputs p)
      | DevicesP p \<Rightarrow> False)"
    by code_simp
  have m0: "SwitchPage 0 \<in> set ?evs" and m1: "SwitchPage 1 \<in> set ?evs"
    by simp_all
  note t = switch_page_initialises_displayed [where i = 1 and d = example_dialog and evs = ?evs
      and tr = "\<lambda>msg. msg" and ind = example_indicator]
  from t m1 have ex: "\<exists>p l. nb_pages (notebook (run ?evs example_dialog)) ! 1 = (DevicesP p, l)
        \<and> is_initialised p
        \<and> rows (listbox_devices p) = map device_row_of (cards example_indicator)"
    unfolding example_dialog_def by blast
  from t len have st: "current_page (notebook (step (SwitchPage 1) example_dialog)) = Some 1"
    by simp
  from t m1 len have fin: "page_is_initialised (fst (nb_pages (notebook
        (run ?evs example_dialog)) ! 1))"
    by simp
  show ?thesis using m0 m1 len fresh names shown ex st fin by simp
qed

text \<open>
  C8. \<open>on_activate\<close> of any page, whatever its \<open>initialise\<close> does: the page is
  initialised afterwards; on an initialised page it changes nothing, so any number of
  activations after the first gives the state the first one gave; an \<open>initialise\<close> that
  counts its runs is run once at most; and an initialised page of the dialog stays
  initialised through everything the user does.
\<close>

theorem on_activate_idempotent:
  "is_initialised (fst (on_activate init s))
   \<and> (is_initialised (fst s) \<longrightarrow> on_activate init s = s)
   \<and> on_activate init (on_activate init s) = on_activate init s
   \<and> (on_activate init ^^ Suc n) s = on_activate init s
   \<and> snd (snd ((on_activate (counting init) ^^ n) (fst s, snd s, c))) \<le> Suc c
   \<and> (j < length (nb_pages (notebook d))
        \<and> page_is_initialised (fst (nb_pages (notebook d) ! j)) \<longrightarrow>
      page_is_initialised (fst (nb_pages (notebook (run evs d)) ! j)))"
proof -
  have twice: "on_activate init (on_activate init s) = on_activate init s"
    by (simp add: on_activate_initialised on_activate_fixed)
  have keeps: "j < length (nb_pages (notebook d))
        \<and> page_is_initialised (fst (nb_pages (notebook d) ! j)) \<longrightarrow>
      page_is_initialised (fst (nb_pages (notebook (run evs d)) ! j))"
    using run_keeps_initialised [of j d evs] by blast
  show ?thesis
    using twice keeps on_activate_funpow [where init = init and n = n and s = s]
      on_activate_counting [where init = init and n = n and p = "fst s" and i = "snd s" and c = c]
      on_activate_initialised [where init = init and s = s]
      on_activate_fixed [where init = init and s = s]
    by blast
qed

theorem on_activate_idempotent_witness:
  "is_initialised (fst (on_activate GeneralPage_initialise
      (GeneralPage_init (\<lambda>msg. msg), example_indicator)))
   \<and> (on_activate GeneralPage_initialise ^^ 3)
        (on_activate GeneralPage_initialise (GeneralPage_init (\<lambda>msg. msg), example_indicator)) =
      on_activate GeneralPage_initialise (GeneralPage_init (\<lambda>msg. msg), example_indicator)
   \<and> snd (snd ((on_activate (counting DevicesPage_initialise) ^^ 4)
        (DevicesPage_init (\<lambda>msg. msg), example_indicator, 0))) \<le> 1"
proof -
  let ?s = "on_activate GeneralPage_initialise (GeneralPage_init (\<lambda>msg. msg), example_indicator)"
  have init: "is_initialised (fst ?s)"
    by (simp add: on_activate_def Let_def)
  have again: "on_activate GeneralPage_initialise ?s = ?s"
    using init on_activate_idempotent [of GeneralPage_initialise ?s] by blast
  have three: "(on_activate GeneralPage_initialise ^^ 3) ?s = ?s"
    using again by (simp add: numeral_3_eq_3)
  have cnt: "snd (snd ((on_activate (counting DevicesPage_initialise) ^^ 4)
        (DevicesPage_init (\<lambda>msg. msg), example_indicator, 0))) \<le> 1"
    using on_activate_idempotent
      [of DevicesPage_initialise "(DevicesPage_init (\<lambda>msg. msg), example_indicator)" 4 0]
    by simp
  show ?thesis using init three cnt by blast
qed

text \<open>
  C9. On a general page that is not initialised, both \<open>state-set\<close> handlers return
  with the page and the indicator as they were: no config write, no \<open>on_refresh\<close>. So
  \<open>initialise\<close>, and the first activation that runs it, leave the indicator as it was,
  although their \<open>set_active\<close> calls run the handlers.
\<close>

theorem uninitialised_handlers_do_nothing:
  assumes "\<not> is_initialised (fst s)"
  shows "on_switch_inputs_set w s = s
       \<and> on_switch_outputs_set w s = s
       \<and> snd (GeneralPage_initialise s) = snd s
       \<and> snd (on_activate GeneralPage_initialise s) = snd s"
  using assms
  by (simp add: handler_inputs_uninit handler_outputs_uninit general_initialise_indicator
        on_activate_def Let_def)

theorem uninitialised_handlers_do_nothing_witness:
  "\<not> is_initialised (fst (GeneralPage_init (\<lambda>msg. msg), example_indicator))
   \<and> active (switch_inputs (fst (GeneralPage_initialise
        (GeneralPage_init (\<lambda>msg. msg), example_indicator)))) \<noteq>
     active (switch_inputs (GeneralPage_init (\<lambda>msg. msg)))
   \<and> calls (snd (GeneralPage_initialise (GeneralPage_init (\<lambda>msg. msg), example_indicator))) = []
   \<and> calls (snd (on_activate GeneralPage_initialise
        (GeneralPage_init (\<lambda>msg. msg), example_indicator))) = []"
proof -
  have un: "\<not> is_initialised (fst (GeneralPage_init (\<lambda>msg. msg), example_indicator))"
    by (simp add: GeneralPage_init_def)
  have changed: "active (switch_inputs (fst (GeneralPage_initialise
        (GeneralPage_init (\<lambda>msg. msg), example_indicator)))) \<noteq>
     active (switch_inputs (GeneralPage_init (\<lambda>msg. msg)))"
    by (simp add: GeneralPage_initialise_def Let_def switch_inputs_set_active_def
          switch_outputs_set_active_def on_switch_inputs_set_def on_switch_outputs_set_def
          GeneralPage_show_all_def GeneralPage_init_def example_indicator_def
          config_getitem_def)
  show ?thesis
    using un changed uninitialised_handlers_do_nothing [OF un]
    by (simp add: example_indicator_def)
qed

text \<open>
  C10. After \<open>update_dev_props_widgets\<close> the device placeholder is visible exactly when
  the devices list has no selected row, and the device props box exactly when it has
  one; the same holds for \<open>update_port_props_widgets\<close>, the port placeholder, the port
  props box and the ports list. \<open>update_dev_props_widgets\<close> first removes every row of
  the ports list; with a device row selected it then adds one row for each port of the
  row's card, in order, and puts the card's display name into the name entry.
\<close>

theorem update_props_widgets_show_one:
  "visible (lbl_dev_props_placeholder (update_dev_props_widgets p)) =
     (get_selected_row (listbox_devices (update_dev_props_widgets p)) = None)
   \<and> visible (box_dev_props (update_dev_props_widgets p)) =
     (\<not> visible (lbl_dev_props_placeholder (update_dev_props_widgets p)))
   \<and> visible (lbl_port_props_placeholder (update_port_props_widgets p)) =
     (get_selected_row (listbox_ports (update_port_props_widgets p)) = None)
   \<and> visible (box_port_props (update_port_props_widgets p)) =
     (\<not> visible (lbl_port_props_placeholder (update_port_props_widgets p)))
   \<and> rows (listbox_ports (remove_port_rows (rows (listbox_ports p)) p)) = []
   \<and> rows (listbox_ports (update_dev_props_widgets p)) =
     (case get_selected_row (listbox_devices p) of
        None \<Rightarrow> []
      | Some r \<Rightarrow> map port_row_of (card_ports (row_card r)))
   \<and> entry_dev_name (update_dev_props_widgets p) =
     (case get_selected_row (listbox_devices p) of
        None \<Rightarrow> entry_dev_name p
      | Some r \<Rightarrow> card_display_name (row_card r))
   \<and> map row_port (rows (listbox_ports (update_dev_props_widgets p))) =
     (case get_selected_row (listbox_devices p) of
        None \<Rightarrow> []
      | Some r \<Rightarrow> map snd (card_ports (row_card r)))"
proof -
  have entry: "entry_dev_name (update_dev_props_widgets p) =
     (case get_selected_row (listbox_devices p) of
        None \<Rightarrow> entry_dev_name p
      | Some r \<Rightarrow> card_display_name (row_card r))"
    by (simp add: update_dev_props_widgets_def Let_def add_port_rows_frame
          remove_port_rows_frame split: option.split)
  have ports: "map row_port (rows (listbox_ports (update_dev_props_widgets p))) =
     (case get_selected_row (listbox_devices p) of
        None \<Rightarrow> []
      | Some r \<Rightarrow> map snd (card_ports (row_card r)))"
    by (simp add: update_dev_rows port_row_of_def comp_def split: option.split)
  show ?thesis
    using entry ports
    by (simp add: update_dev_visible update_port_visible update_dev_frame update_port_frame
          remove_port_rows_rows update_dev_rows)
qed

theorem update_props_widgets_show_one_witness:
  "get_selected_row (listbox_devices example_devices_page) = Some (device_row_of (0, builtin_audio))
   \<and> \<not> visible (lbl_dev_props_placeholder (update_dev_props_widgets example_devices_page))
   \<and> visible (box_dev_props (update_dev_props_widgets example_devices_page))
   \<and> map row_port (rows (listbox_ports (update_dev_props_widgets example_devices_page))) =
     [speakers, headphones]
   \<and> entry_dev_name (update_dev_props_widgets example_devices_page) = ''Built-in Audio''"
proof -
  have sel: "get_selected_row (listbox_devices example_devices_page) =
      Some (device_row_of (0, builtin_audio))"
    by (simp add: example_devices_page_def get_selected_row_def)
  have same: "listbox_devices (update_dev_props_widgets example_devices_page) =
      listbox_devices example_devices_page"
    by (rule update_dev_frame)
  have card: "card_ports (row_card (device_row_of (0, builtin_audio))) =
        [(''analog-output-speaker'', speakers), (''analog-output-headphones'', headphones)]
      \<and> card_display_name (row_card (device_row_of (0, builtin_audio))) = ''Built-in Audio''"
    by (simp add: device_row_of_def builtin_audio_def)
  show ?thesis
    using update_props_widgets_show_one [of example_devices_page] sel same card
    by (simp add: port_row_of_def)
qed

end
